theory Spec2Isabelle
  imports Main "HOL-Library.Word"
begin

unbundle bit_operations_syntax

section \<open>Python strings and bytes\<close>

text \<open>
  A Python \<open>str\<close> is modelled as a \<open>string\<close> whose characters are the code points
  0..255 (one \<open>char\<close> per code point); \<open>bytes\<close> are lists of 8-bit words. An exception
  is represented by its message (\<open>str(e)\<close>), the only part of it the program uses.
\<close>

type_synonym byte = "8 word"
type_synonym bytes = "byte list"
type_synonym exn = string

definition ord8 :: "char \<Rightarrow> byte" where
  "ord8 c = of_nat (of_char c)"

definition truthy :: "string option \<Rightarrow> bool" where
  \<comment> \<open>Python truthiness of an \<open>Optional[str]\<close>: \<open>None\<close> and \<open>""\<close> are false.\<close>
  "truthy s = (case s of None \<Rightarrow> False | Some v \<Rightarrow> v \<noteq> [])"

definition lower_char :: "char \<Rightarrow> char" where
  \<comment> \<open>\<open>str.lower\<close> on one code point below 256: A-Z and the accented capitals
      0xC0-0xDE (without the multiplication sign 0xD7) move up by 32.\<close>
  "lower_char c =
     (let n = (of_char c :: nat) in
      if (65 \<le> n \<and> n \<le> 90) \<or> (192 \<le> n \<and> n \<le> 222 \<and> n \<noteq> 215)
      then char_of (n + 32) else c)"

definition lower :: "string \<Rightarrow> string" where
  "lower s = map lower_char s"

definition startswith :: "string \<Rightarrow> string \<Rightarrow> bool" where
  "startswith s pre = (take (length pre) s = pre)"

definition endswith :: "string \<Rightarrow> string \<Rightarrow> bool" where
  "endswith s suf = (length suf \<le> length s \<and> drop (length s - length suf) s = suf)"

fun split_aux :: "char \<Rightarrow> string \<Rightarrow> string \<Rightarrow> string list" where
  "split_aux sep [] cur = [cur]"
| "split_aux sep (c # cs) cur =
     (if c = sep then cur # split_aux sep cs [] else split_aux sep cs (cur @ [c]))"

definition split_str :: "char \<Rightarrow> string \<Rightarrow> string list" where
  \<comment> \<open>\<open>s.split(sep)\<close> for a one-character separator.\<close>
  "split_str sep s = split_aux sep s []"

definition is_linebreak :: "char \<Rightarrow> bool" where
  \<comment> \<open>The line boundaries of \<open>str.splitlines\<close> below code point 256.\<close>
  "is_linebreak c =
     ((of_char c :: nat) \<in> {0x0A, 0x0B, 0x0C, 0x0D, 0x1C, 0x1D, 0x1E, 0x85})"

fun splitlines_aux :: "string \<Rightarrow> string \<Rightarrow> string list" where
  "splitlines_aux [] cur = (if cur = [] then [] else [cur])"
| "splitlines_aux [c] cur = (if is_linebreak c then [cur] else [cur @ [c]])"
| "splitlines_aux (c # d # ds) cur =
     (if c = CHR 0x0D \<and> d = CHR 0x0A then cur # splitlines_aux ds []
      else if is_linebreak c then cur # splitlines_aux (d # ds) []
      else splitlines_aux (d # ds) (cur @ [c]))"

definition splitlines :: "string \<Rightarrow> string list" where
  "splitlines s = splitlines_aux s []"

fun join :: "string \<Rightarrow> string list \<Rightarrow> string" where
  "join sep [] = []"
| "join sep [x] = x"
| "join sep (x # y # ys) = x @ sep @ join sep (y # ys)"

definition rfind :: "string \<Rightarrow> char \<Rightarrow> int" where
  \<comment> \<open>\<open>p.rfind(c)\<close>: the index of the last occurrence, -1 when there is none.\<close>
  "rfind p c =
     (if c \<in> set p
      then int (length p) - 1 - int (length (takeWhile (\<lambda>x. x \<noteq> c) (rev p)))
      else - 1)"

definition splitext :: "string \<Rightarrow> string \<times> string" where
  \<comment> \<open>\<open>os.path.splitext\<close> (posixpath): the extension starts at the last dot of the last
      path component, unless only dots precede it there.\<close>
  "splitext p =
     (let sepIndex = rfind p (CHR ''/'');
          dotIndex = rfind p (CHR ''.'')
      in if dotIndex > sepIndex
            \<and> list_ex (\<lambda>x. x \<noteq> CHR ''.'')
                 (take (nat (dotIndex - (sepIndex + 1))) (drop (nat (sepIndex + 1)) p))
         then (take (nat dotIndex) p, drop (nat dotIndex) p)
         else (p, []))"

fun utf8_char :: "char \<Rightarrow> bytes" where
  "utf8_char c =
     (let n = (of_char c :: nat) in
      if n < 128 then [of_nat n] else [of_nat (192 + n div 64), of_nat (128 + n mod 64)])"

definition utf8_encode :: "string \<Rightarrow> bytes" where
  \<comment> \<open>\<open>s.encode("utf-8")\<close> for code points below 256.\<close>
  "utf8_encode s = concat (map utf8_char s)"

subsection \<open>base64\<close>

text \<open>
  \<open>base64.b64decode(s)\<close> with its default \<open>validate=False\<close>: a \<open>str\<close> argument must be
  ASCII (otherwise \<open>ValueError\<close>), and \<open>binascii.a2b_base64\<close> then skips every character
  outside the base64 alphabet before it checks the padding. The loop below follows
  the non-strict branch of CPython's \<open>binascii.a2b_base64\<close>; \<open>None\<close> stands for the raised
  \<open>binascii.Error\<close> or \<open>ValueError\<close>.
\<close>

definition table_a2b_base64 :: "byte \<Rightarrow> byte option" where
  "table_a2b_base64 c =
     (if 0x41 \<le> c \<and> c \<le> 0x5A then Some (c - 0x41)
      else if 0x61 \<le> c \<and> c \<le> 0x7A then Some (c - 0x61 + 26)
      else if 0x30 \<le> c \<and> c \<le> 0x39 then Some (c - 0x30 + 52)
      else if c = 0x2B then Some 62
      else if c = 0x2F then Some 63
      else None)"

fun a2b_base64_loop :: "bytes \<Rightarrow> nat \<Rightarrow> byte \<Rightarrow> nat \<Rightarrow> bytes \<Rightarrow> bytes option" where
  "a2b_base64_loop [] quad_pos leftchar pads bin_data =
     (if quad_pos \<noteq> 0 then None else Some bin_data)"
| "a2b_base64_loop (this_ch # rest) quad_pos leftchar pads bin_data =
     (if this_ch = 0x3D then
        (if quad_pos \<ge> 2 \<and> quad_pos + (pads + 1) \<ge> 4 then Some bin_data
         else a2b_base64_loop rest quad_pos leftchar
                (if quad_pos \<ge> 2 then pads + 1 else pads) bin_data)
      else
        (case table_a2b_base64 this_ch of
           None \<Rightarrow> a2b_base64_loop rest quad_pos leftchar pads bin_data
         | Some v \<Rightarrow>
             (if quad_pos = 0 then a2b_base64_loop rest 1 v 0 bin_data
              else if quad_pos = 1 then
                a2b_base64_loop rest 2 (v AND 0x0F) 0
                  (bin_data @ [push_bit 2 leftchar OR drop_bit 4 v])
              else if quad_pos = 2 then
                a2b_base64_loop rest 3 (v AND 0x03) 0
                  (bin_data @ [push_bit 4 leftchar OR drop_bit 2 v])
              else
                a2b_base64_loop rest 0 0 0
                  (bin_data @ [push_bit 6 leftchar OR v]))))"

definition b64decode :: "string \<Rightarrow> bytes option" where
  "b64decode s =
     (if list_ex (\<lambda>c. (of_char c :: nat) \<ge> 128) s then None
      else a2b_base64_loop (map ord8 s) 0 0 0 [])"

definition table_b2a_base64 :: string where
  "table_b2a_base64 =
     ''ABCDEFGHIJKLMNOPQRSTUVWXYZabcdefghijklmnopqrstuvwxyz0123456789+/''"

definition b2a :: "byte \<Rightarrow> char" where
  "b2a v = table_b2a_base64 ! (unat v mod 64)"

fun b64encode :: "bytes \<Rightarrow> string" where
  "b64encode [] = []"
| "b64encode [a] =
     [b2a (drop_bit 2 a), b2a (push_bit 4 (a AND 0x03)), CHR ''='', CHR ''='']"
| "b64encode [a, b] =
     [b2a (drop_bit 2 a), b2a (push_bit 4 (a AND 0x03) OR drop_bit 4 b),
      b2a (push_bit 2 (b AND 0x0F)), CHR ''='']"
| "b64encode (a # b # c # rest) =
     [b2a (drop_bit 2 a), b2a (push_bit 4 (a AND 0x03) OR drop_bit 4 b),
      b2a (push_bit 2 (b AND 0x0F) OR drop_bit 6 c), b2a (c AND 0x3F)] @ b64encode rest"

section \<open>Extension table\<close>

definition EXTENSION_TO_MIME :: "(string \<times> string) list" where
  "EXTENSION_TO_MIME =
     [(''.txt'', ''text/plain''),
      (''.csv'', ''text/csv''),
      (''.json'', ''application/json''),
      (''.pdf'', ''application/pdf''),
      (''.jpg'', ''image/jpeg''),
      (''.jpeg'', ''image/jpeg''),
      (''.png'', ''image/png''),
      (''.mp4'', ''video/mp4''),
      (''.docx'', ''application/vnd.openxmlformats-officedocument.wordprocessingml.document''),
      (''.xlsx'', ''application/vnd.openxmlformats-officedocument.spreadsheetml.sheet''),
      (''.pptx'', ''application/vnd.openxmlformats-officedocument.presentationml.presentation''),
      (''.py'', ''text/plain''),
      (''.ipynb'', ''application/json'')]"

definition get_mime_type :: "string \<Rightarrow> string" where
  "get_mime_type filename =
     (let ext = lower (snd (splitext filename))
      in case map_of EXTENSION_TO_MIME ext of
           Some m \<Rightarrow> m
         | None \<Rightarrow> ''application/octet-stream'')"

section \<open>Document libraries\<close>

text \<open>
  The document libraries (reportlab, pandas with xlsxwriter, python-pptx, python-docx,
  PyPDF2, the codec registry behind \<open>bytes.decode\<close>) are parameters of the model. Each
  call either raises (\<open>Inl\<close>) or returns a value.
\<close>

record libs =
  make_pdf :: "string \<Rightarrow> exn + bytes"
    \<comment> \<open>canvas with Helvetica 12, \<open>drawString(100, 750, text)\<close>, saved\<close>
  make_xlsx :: "string list list \<Rightarrow> exn + bytes"
    \<comment> \<open>\<open>DataFrame(rows).to_excel(index=False, header=False)\<close>\<close>
  make_pptx :: "(string \<times> string) list \<Rightarrow> exn + bytes"
    \<comment> \<open>one slide of layout 1 per pair (title, body), saved\<close>
  make_docx :: "string list \<Rightarrow> exn + bytes"
    \<comment> \<open>one \<open>add_paragraph\<close> per line, saved\<close>
  bytes_decode :: "string \<Rightarrow> bytes \<Rightarrow> exn + string"
    \<comment> \<open>\<open>data.decode(encoding)\<close>\<close>
  pdf_pages :: "bytes \<Rightarrow> exn + string option list"
    \<comment> \<open>\<open>page.extract_text()\<close> of every page of \<open>PdfReader(file_io)\<close>\<close>
  excel_to_csv :: "bytes \<Rightarrow> exn + string"
    \<comment> \<open>\<open>pd.read_excel(file_io).to_csv(index=False)\<close>\<close>
  pptx_shapes :: "bytes \<Rightarrow> exn + string option list"
    \<comment> \<open>every shape of every slide in order, \<open>None\<close> for a shape without \<open>text\<close>\<close>

section \<open>Encoding on the write path\<close>

definition mime_pdf :: string where
  "mime_pdf = ''application/pdf''"

definition mime_xlsx :: string where
  "mime_xlsx = ''application/vnd.openxmlformats-officedocument.spreadsheetml.sheet''"

definition mime_pptx :: string where
  "mime_pptx = ''application/vnd.openxmlformats-officedocument.presentationml.presentation''"

definition mime_docx :: string where
  "mime_docx = ''application/vnd.openxmlformats-officedocument.wordprocessingml.document''"

definition make_pdf_bytes :: "libs \<Rightarrow> string \<Rightarrow> exn + bytes" where
  "make_pdf_bytes L text = make_pdf L text"

definition encode_content :: "libs \<Rightarrow> string \<Rightarrow> string \<Rightarrow> exn + bytes" where
  \<comment> \<open>The \<open>if\<close>/\<open>elif\<close> chain of \<open>write_file\<close> that fills \<open>file_stream\<close>.\<close>
  "encode_content L mime_type content =
     (if mime_type = mime_pdf then make_pdf_bytes L content
      else if mime_type = mime_xlsx then
        (case b64decode content of
           Some file_bytes \<Rightarrow> Inr file_bytes
         | None \<Rightarrow> make_xlsx L (map (split_str (CHR '','')) (splitlines content)))
      else if mime_type = mime_pptx then
        (case b64decode content of
           Some file_bytes \<Rightarrow> Inr file_bytes
         | None \<Rightarrow> make_pptx L (map (\<lambda>line. (''Slide'', line)) (splitlines content)))
      else if mime_type = mime_docx then
        (case b64decode content of
           Some file_bytes \<Rightarrow> Inr file_bytes
         | None \<Rightarrow> make_docx L (splitlines content))
      else if startswith mime_type ''text/'' \<or> mime_type = ''application/json'' then
        Inr (utf8_encode content)
      else
        (case b64decode content of
           Some file_bytes \<Rightarrow> Inr file_bytes
         | None \<Rightarrow> Inr (utf8_encode content)))"

section \<open>The remote service\<close>

text \<open>
  The remote storage service is a parameter as well: a session handle answers each
  request with an exception (\<open>Inl\<close>) or a response. An entry carries the fields of a returned
  file resource that the program reads. Field masks (\<open>fields=...\<close>) are fixed strings in
  the source and are not modelled. A download is the sequence of outcomes of the
  successive \<open>next_chunk\<close> calls; the transfer reports completion with its last chunk, and
  there is always at least one call.
\<close>

record entry =
  entry_id :: string
  entry_name :: string
  entry_mimeType :: string

record body =
  body_name :: string
  body_mimeType :: "string option"
  body_parents :: "string list option"

type_synonym media = "string \<times> bytes"

datatype request =
    CreateReq body "media option"
  | ListReq string "int option"
  | GetReq string
  | NextChunkReq string
  | UpdateReq string body media

record service =
  files_create :: "body \<Rightarrow> media option \<Rightarrow> exn + entry"
  files_list :: "string \<Rightarrow> int option \<Rightarrow> exn + entry list"
  files_get :: "string \<Rightarrow> exn + entry"
  files_get_media :: "string \<Rightarrow> (exn + bytes) \<times> (exn + bytes) list"
  files_update :: "string \<Rightarrow> body \<Rightarrow> media \<Rightarrow> exn + entry"

record client =
  user_id :: string
  token_dir :: string
  token_file :: string
  service :: "service option"

definition path_join :: "string \<Rightarrow> string \<Rightarrow> string" where
  \<comment> \<open>\<open>os.path.join(a, b)\<close> (posixpath) for two components.\<close>
  "path_join a b =
     (if startswith b ''/'' then b
      else if a = [] \<or> endswith a ''/'' then a @ b
      else a @ ''/'' @ b)"

definition init_client :: "string \<Rightarrow> string \<Rightarrow> client" where
  "init_client uid tdir =
     \<lparr>user_id = uid, token_dir = tdir,
      token_file = path_join tdir (uid @ ''_token.pickle''),
      service = None\<rparr>"

subsection \<open>Computations that raise and issue requests\<close>

text \<open>
  A computation yields an exception or a value, together with the requests it sent to
  the remote service, in order.
\<close>

type_synonym 'a io = "(exn + 'a) \<times> request list"

definition ret :: "'a \<Rightarrow> 'a io" where
  "ret x = (Inr x, [])"

definition lift :: "exn + 'a \<Rightarrow> 'a io" where
  \<comment> \<open>a library call: it may raise, and sends nothing to the remote service\<close>
  "lift r = (r, [])"

definition call :: "request \<Rightarrow> exn + 'a \<Rightarrow> 'a io" where
  \<comment> \<open>one executed remote request and its outcome\<close>
  "call rq r = (r, [rq])"

definition bind :: "'a io \<Rightarrow> ('a \<Rightarrow> 'b io) \<Rightarrow> 'b io" where
  "bind m f =
     (case m of
        (Inl e, log) \<Rightarrow> (Inl e, log)
      | (Inr x, log) \<Rightarrow> (case f x of (r, log') \<Rightarrow> (r, log @ log')))"

definition catch :: "'a io \<Rightarrow> (exn \<Rightarrow> 'a) \<Rightarrow> 'a io" where
  \<comment> \<open>\<open>try: ... except Exception as e: return h(e)\<close>\<close>
  "catch m h =
     (case m of
        (Inl e, log) \<Rightarrow> (Inr (h e), log)
      | (Inr x, log) \<Rightarrow> (Inr x, log))"

subsection \<open>Result envelopes\<close>

datatype data =
    Entry entry
  | Entries "entry list"
  | FileContent entry string

datatype envelope =
    Success data
  | Error string

definition not_authenticated :: envelope where
  "not_authenticated = Error ''Not authenticated''"

definition mime_folder :: string where
  "mime_folder = ''application/vnd.google-apps.folder''"

section \<open>Operations of the client\<close>

definition parents_of :: "string option \<Rightarrow> string list option" where
  \<comment> \<open>\<open>if parent_id and parent_id != "root": metadata['parents'] = [parent_id]\<close>\<close>
  "parents_of parent_id =
     (case parent_id of
        None \<Rightarrow> None
      | Some p \<Rightarrow> if p \<noteq> [] \<and> p \<noteq> ''root'' then Some [p] else None)"

definition create_folder :: "client \<Rightarrow> string \<Rightarrow> string option \<Rightarrow> envelope io" where
  "create_folder self name parent_id =
     catch
       (case service self of
          None \<Rightarrow> ret not_authenticated
        | Some svc \<Rightarrow>
            (let folder_metadata =
                   \<lparr>body_name = name, body_mimeType = Some mime_folder,
                    body_parents = parents_of parent_id\<rparr>
             in bind (call (CreateReq folder_metadata None)
                        (files_create svc folder_metadata None))
                  (\<lambda>folder. ret (Success (Entry folder)))))
       (\<lambda>e. Error (''Failed to create folder: '' @ e))"

definition list_query :: "string option \<Rightarrow> string" where
  "list_query folder_id =
     [CHR 0x27] @ (if truthy folder_id then (case folder_id of Some f \<Rightarrow> f | None \<Rightarrow> ''root'')
                   else ''root'')
       @ [CHR 0x27] @ '' in parents and trashed=false''"

definition list_directory :: "client \<Rightarrow> string option \<Rightarrow> int \<Rightarrow> envelope io" where
  "list_directory self folder_id max_results =
     catch
       (case service self of
          None \<Rightarrow> ret not_authenticated
        | Some svc \<Rightarrow>
            (let query = list_query folder_id
             in bind (call (ListReq query (Some max_results))
                        (files_list svc query (Some max_results)))
                  (\<lambda>files. ret (Success (Entries files)))))
       (\<lambda>e. Error (''Failed to list directory: '' @ e))"

definition folder_query :: "string \<Rightarrow> string \<Rightarrow> string" where
  "folder_query current_folder_id part =
     [CHR 0x27] @ current_folder_id @ [CHR 0x27] @ '' in parents and name=''
       @ [CHR 0x27] @ part @ [CHR 0x27] @ '' and mimeType=''
       @ [CHR 0x27] @ mime_folder @ [CHR 0x27] @ '' and trashed=false''"

definition path_not_found :: "string \<Rightarrow> envelope" where
  "path_not_found path = Error (''Path '' @ [CHR 0x27] @ path @ [CHR 0x27] @ '' not found'')"

fun navigate_loop :: "service \<Rightarrow> string \<Rightarrow> string \<Rightarrow> string list \<Rightarrow> (envelope + string) io" where
  \<comment> \<open>the \<open>for part in parts\<close> loop: \<open>Inl\<close> is its early \<open>return\<close>, \<open>Inr\<close> the folder id it ends with\<close>
  "navigate_loop svc path current_folder_id [] = ret (Inr current_folder_id)"
| "navigate_loop svc path current_folder_id (part # parts) =
     (let query = folder_query current_folder_id part
      in bind (call (ListReq query None) (files_list svc query None))
           (\<lambda>items. case items of
                       [] \<Rightarrow> ret (Inl (path_not_found path))
                     | item # _ \<Rightarrow> navigate_loop svc path (entry_id item) parts))"

definition navigate_path :: "client \<Rightarrow> string \<Rightarrow> envelope io" where
  "navigate_path self path =
     catch
       (case service self of
          None \<Rightarrow> ret not_authenticated
        | Some svc \<Rightarrow>
            (if path = ''/'' \<or> path = [] then list_directory self (Some ''root'') 100
             else
               (let parts = filter (\<lambda>p. p \<noteq> []) (split_str (CHR ''/'') path)
                in bind (navigate_loop svc path ''root'' parts)
                     (\<lambda>r. case r of
                            Inl early \<Rightarrow> ret early
                          | Inr current_folder_id \<Rightarrow>
                              list_directory self (Some current_folder_id) 100))))
       (\<lambda>e. Error (''Failed to navigate path: '' @ e))"

definition name_query :: "string \<Rightarrow> string \<Rightarrow> string" where
  "name_query parent_id name =
     [CHR 0x27] @ parent_id @ [CHR 0x27] @ '' in parents and name=''
       @ [CHR 0x27] @ name @ [CHR 0x27] @ '' and trashed=false''"

definition get_file_id_by_name :: "service \<Rightarrow> string \<Rightarrow> string \<Rightarrow> string option io" where
  "get_file_id_by_name svc name parent_id =
     catch
       (let query = name_query parent_id name
        in bind (call (ListReq query None) (files_list svc query None))
             (\<lambda>files. case files of
                         [] \<Rightarrow> ret None
                       | f # _ \<Rightarrow> ret (Some (entry_id f))))
       (\<lambda>e. None)"

fun next_chunks :: "string \<Rightarrow> (exn + bytes) list \<Rightarrow> bytes \<Rightarrow> bytes io" where
  \<comment> \<open>the \<open>while not done\<close> loop after its first call; the buffer collects the chunks\<close>
  "next_chunks file_id [] file_io = ret file_io"
| "next_chunks file_id (c # cs) file_io =
     bind (call (NextChunkReq file_id) c) (\<lambda>d. next_chunks file_id cs (file_io @ d))"

definition download :: "service \<Rightarrow> string \<Rightarrow> bytes io" where
  "download svc file_id =
     (case files_get_media svc file_id of (c, cs) \<Rightarrow> next_chunks file_id (c # cs) [])"

definition decode_content :: "libs \<Rightarrow> string \<Rightarrow> string \<Rightarrow> bytes \<Rightarrow> exn + string" where
  \<comment> \<open>the dispatch of \<open>read_file\<close> on the extension of the resolved name\<close>
  "decode_content L filename encoding raw =
     (let ext = lower (snd (splitext filename))
      in if ext \<in> set [''.txt'', ''.py'', ''.csv'', ''.json'', ''.ipynb''] then
           bytes_decode L encoding raw
         else if ext = ''.pdf'' then
           (case pdf_pages L raw of
              Inl e \<Rightarrow> Inl e
            | Inr pages \<Rightarrow>
                Inr (join [CHR 0x0A]
                       (map (\<lambda>t. case t of None \<Rightarrow> [] | Some x \<Rightarrow> x) pages)))
         else if ext = ''.xlsx'' then excel_to_csv L raw
         else if ext = ''.pptx'' then
           (case pptx_shapes L raw of
              Inl e \<Rightarrow> Inl e
            | Inr shapes \<Rightarrow>
                Inr (join [CHR 0x0A]
                       (concat (map (\<lambda>t. case t of None \<Rightarrow> [] | Some x \<Rightarrow> [x]) shapes))))
         else Inr (b64encode raw))"

definition file_not_found :: "string \<Rightarrow> envelope" where
  "file_not_found n = Error (''File '' @ [CHR 0x27] @ n @ [CHR 0x27] @ '' not found'')"

definition resolve_id :: "service \<Rightarrow> string \<Rightarrow> string \<Rightarrow> (envelope + string) io" where
  \<comment> \<open>the "Resolve ID" step: \<open>Inl\<close> is the early \<open>return\<close> of the not-found envelope\<close>
  "resolve_id svc file_name_or_id parent_id =
     (if length file_name_or_id > 20
           \<and> \<not> list_ex (endswith file_name_or_id) (map fst EXTENSION_TO_MIME)
      then ret (Inr file_name_or_id)
      else bind (get_file_id_by_name svc file_name_or_id parent_id)
             (\<lambda>file_id. if truthy file_id
                         then (case file_id of Some i \<Rightarrow> ret (Inr i)
                                             | None \<Rightarrow> ret (Inl (file_not_found file_name_or_id)))
                         else ret (Inl (file_not_found file_name_or_id))))"

definition read_file :: "libs \<Rightarrow> client \<Rightarrow> string \<Rightarrow> string \<Rightarrow> string \<Rightarrow> envelope io" where
  "read_file L self file_name_or_id encoding parent_id =
     catch
       (case service self of
          None \<Rightarrow> ret not_authenticated
        | Some svc \<Rightarrow>
            bind (resolve_id svc file_name_or_id parent_id)
              (\<lambda>r. case r of
                     Inl early \<Rightarrow> ret early
                   | Inr file_id \<Rightarrow>
                       bind (call (GetReq file_id) (files_get svc file_id))
                         (\<lambda>metadata.
                            bind (download svc file_id)
                              (\<lambda>raw.
                                 bind (lift (decode_content L (entry_name metadata) encoding raw))
                                   (\<lambda>content. ret (Success (FileContent metadata content)))))))
       (\<lambda>e. Error (''Failed to read file: '' @ e))"

definition write_file ::
  "libs \<Rightarrow> client \<Rightarrow> string \<Rightarrow> string \<Rightarrow> string option \<Rightarrow> string option \<Rightarrow> envelope io" where
  "write_file L self name content file_id parent_id =
     catch
       (case service self of
          None \<Rightarrow> ret not_authenticated
        | Some svc \<Rightarrow>
            (let mime_type = get_mime_type name
             in bind (lift (encode_content L mime_type content))
                  (\<lambda>file_stream.
                     let media = (mime_type, file_stream)
                     in case (if truthy file_id then file_id else None) of
                          Some fid \<Rightarrow>
                            (let b = \<lparr>body_name = name, body_mimeType = None, body_parents = None\<rparr>
                             in bind (call (UpdateReq fid b media) (files_update svc fid b media))
                                  (\<lambda>updated. ret (Success (Entry updated))))
                        | None \<Rightarrow>
                            (let metadata =
                                   \<lparr>body_name = name, body_mimeType = None,
                                    body_parents = parents_of parent_id\<rparr>
                             in bind (call (CreateReq metadata (Some media))
                                        (files_create svc metadata (Some media)))
                                  (\<lambda>created. ret (Success (Entry created)))))))
       (\<lambda>e. Error (''Failed to write file: '' @ e))"

section \<open>Credentials and authentication\<close>

text \<open>
  The token file of a user holds a pickled object: a credential, \<open>None\<close>, or bytes that
  \<open>pickle.load\<close> rejects. The authorization service (\<open>creds.refresh(Request())\<close>), the
  construction of the session handle (\<open>build("drive", "v3", credentials=creds)\<close>) and the
  clock are parameters. The world records the token files and every refresh sent to the
  authorization service.
\<close>

record credentials =
  token :: "string option"
  refresh_token :: "string option"
  expiry :: "nat option"

definition expired :: "credentials \<Rightarrow> nat \<Rightarrow> bool" where
  \<comment> \<open>Modelled from the spec: the \<open>expired\<close> property of the credential class, which is
      not part of the sources; the spec's state Expired is reached once \<open>now < expiry\<close>
      no longer holds. A credential without expiry never expires.\<close>
  "expired c t = (case expiry c of None \<Rightarrow> False | Some e \<Rightarrow> e \<le> t)"

definition valid :: "credentials \<Rightarrow> nat \<Rightarrow> bool" where
  \<comment> \<open>Modelled from the spec: \<open>is_valid(credential, now)\<close>, true iff the access token is
      present and \<open>now < expiry\<close>; the credential class is not part of the sources.\<close>
  "valid c t = (token c \<noteq> None \<and> \<not> expired c t)"

datatype stored = Corrupt exn | Pickled "credentials option"

record auth_env =
  now :: nat
  refresh :: "credentials \<Rightarrow> exn + credentials"
  build :: "credentials \<Rightarrow> exn + service"

record world =
  token_files :: "string \<rightharpoonup> stored"
  refresh_calls :: "credentials list"

definition refresh_step ::
  "auth_env \<Rightarrow> client \<Rightarrow> world \<Rightarrow> credentials option \<Rightarrow> (exn + credentials option) \<times> world" where
  \<comment> \<open>\<open>if creds and creds.expired and creds.refresh_token:\<close> refresh, then dump\<close>
  "refresh_step E self W creds =
     (case creds of
        None \<Rightarrow> (Inr None, W)
      | Some c \<Rightarrow>
          if expired c (now E) \<and> truthy (refresh_token c) then
            (let W1 = W\<lparr>refresh_calls := refresh_calls W @ [c]\<rparr>
             in case refresh E c of
                  Inl e \<Rightarrow> (Inl e, W1)
                | Inr c' \<Rightarrow>
                    (Inr (Some c'),
                     W1\<lparr>token_files := (token_files W1)(token_file self \<mapsto> Pickled (Some c'))\<rparr>))
          else (Inr (Some c), W))"

definition authenticate_body ::
  "auth_env \<Rightarrow> client \<Rightarrow> world \<Rightarrow> (exn + bool) \<times> client \<times> world" where
  \<comment> \<open>the body of the \<open>try\<close> block\<close>
  "authenticate_body E self W =
     (case token_files W (token_file self) of
        None \<Rightarrow> (Inr False, self, W)
      | Some (Corrupt e) \<Rightarrow> (Inl e, self, W)
      | Some (Pickled creds) \<Rightarrow>
          (case refresh_step E self W creds of
             (Inl e, W') \<Rightarrow> (Inl e, self, W')
           | (Inr None, W') \<Rightarrow> (Inr False, self, W')
           | (Inr (Some c), W') \<Rightarrow>
               if \<not> valid c (now E) then (Inr False, self, W')
               else (case build E c of
                       Inl e \<Rightarrow> (Inl e, self, W')
                     | Inr svc \<Rightarrow> (Inr True, self\<lparr>service := Some svc\<rparr>, W'))))"

definition authenticate ::
  "auth_env \<Rightarrow> client \<Rightarrow> world \<Rightarrow> (exn + bool) \<times> client \<times> world" where
  \<comment> \<open>\<open>except Exception: return False\<close> around the body\<close>
  "authenticate E self W =
     (case authenticate_body E self W of
        (Inl e, self', W') \<Rightarrow> (Inr False, self', W')
      | (Inr b, self', W') \<Rightarrow> (Inr b, self', W'))"

section \<open>Definitions following the specification\<close>

definition spec_synthesize :: "libs \<Rightarrow> string \<Rightarrow> string list \<Rightarrow> exn + bytes" where
  \<comment> \<open>Fallback synthesis as the specification words it: a spreadsheet has one row per line,
      each line split on the delimiter; a presentation one slide per line with a generic
      title and the line as body; a word-processing document one paragraph per line.\<close>
  "spec_synthesize L ext lines =
     (if ext = ''.xlsx'' then make_xlsx L (map (split_str (CHR '','')) lines)
      else if ext = ''.pptx'' then make_pptx L (map (\<lambda>line. (''Slide'', line)) lines)
      else make_docx L lines)"

datatype resolution = Resolved string | No_match | Lookup_failed exn

definition spec_segments :: "string \<Rightarrow> string list" where
  \<comment> \<open>"split path on /, discard empty segments"\<close>
  "spec_segments path = filter (\<lambda>seg. seg \<noteq> []) (split_str (CHR ''/'') path)"

definition spec_folder_lookup :: "string \<Rightarrow> string \<Rightarrow> string" where
  \<comment> \<open>the request "child of this folder, with this exact name, of kind folder, not trashed"
      in the search language of the remote service\<close>
  "spec_folder_lookup folder seg =
     [CHR 0x27] @ folder @ [CHR 0x27] @ '' in parents and name='' @ [CHR 0x27] @ seg @ [CHR 0x27]
       @ '' and mimeType='' @ [CHR 0x27] @ ''application/vnd.google-apps.folder'' @ [CHR 0x27]
       @ '' and trashed=false''"

definition spec_children_listing :: "string \<Rightarrow> string" where
  \<comment> \<open>the request "children of this folder, not trashed"\<close>
  "spec_children_listing folder =
     [CHR 0x27] @ folder @ [CHR 0x27] @ '' in parents and trashed=false''"

definition spec_step :: "service \<Rightarrow> resolution \<Rightarrow> string \<Rightarrow> resolution" where
  \<comment> \<open>one segment: look up the child folders of the current folder with that name; no match
      fails, otherwise the first match becomes the current folder\<close>
  "spec_step svc r seg =
     (case r of
        Resolved cur \<Rightarrow>
          (case files_list svc (spec_folder_lookup cur seg) None of
             Inl e \<Rightarrow> Lookup_failed e
           | Inr [] \<Rightarrow> No_match
           | Inr (first # _) \<Rightarrow> Resolved (entry_id first))
      | No_match \<Rightarrow> No_match
      | Lookup_failed e \<Rightarrow> Lookup_failed e)"

definition spec_walk :: "service \<Rightarrow> string list \<Rightarrow> resolution" where
  \<comment> \<open>"starting at root, for each segment ..."\<close>
  "spec_walk svc segs = foldl (spec_step svc) (Resolved ''root'') segs"

text \<open>
  The remote entries as the specification describes them, and the walk over them: a lookup
  selects, among the entries held by the remote service, the children of the current
  folder that carry the segment's name, are folders and are not trashed.
\<close>

record node =
  node_id :: string
  node_name :: string
  node_parent :: string
  node_mimeType :: string
  node_trashed :: bool

definition entry_of :: "node \<Rightarrow> entry" where
  "entry_of n =
     \<lparr>entry_id = node_id n, entry_name = node_name n, entry_mimeType = node_mimeType n\<rparr>"

definition is_folder :: "node \<Rightarrow> bool" where
  "is_folder n = (node_mimeType n = ''application/vnd.google-apps.folder'')"

definition child_folders :: "node list \<Rightarrow> string \<Rightarrow> string \<Rightarrow> entry list" where
  "child_folders D folder seg =
     map entry_of
       (filter (\<lambda>n. node_parent n = folder \<and> node_name n = seg \<and> is_folder n
                    \<and> \<not> node_trashed n) D)"

fun walk_drive :: "node list \<Rightarrow> string \<Rightarrow> string list \<Rightarrow> string option" where
  "walk_drive D folder [] = Some folder"
| "walk_drive D folder (seg # segs) =
     (case child_folders D folder seg of
        [] \<Rightarrow> None
      | first # _ \<Rightarrow> walk_drive D (entry_id first) segs)"


definition same_extension_up_to_case :: "string \<Rightarrow> string \<Rightarrow> bool" where
  \<comment> \<open>two names whose extensions differ at most in letter case\<close>
  "same_extension_up_to_case n1 n2 =
     (lower (snd (splitext n1)) = lower (snd (splitext n2)))"

section \<open>Sample collaborators\<close>

text \<open>
  Small stand-ins for the document libraries, the remote service and the authorization
  service. They only serve to run the model on concrete inputs.
\<close>

definition sample_libs :: libs where
  "sample_libs =
     \<lparr>make_pdf = (\<lambda>t. Inr (utf8_encode (''%PDF '' @ t))),
      make_xlsx = (\<lambda>rows. Inr (utf8_encode (''XLSX '' @ join ''|'' (map (join '','') rows)))),
      make_pptx = (\<lambda>slides. Inr (utf8_encode (''PPTX '' @ join ''|'' (map snd slides)))),
      make_docx = (\<lambda>paras. Inr (utf8_encode (''DOCX '' @ join ''|'' paras))),
      bytes_decode = (\<lambda>enc raw. if enc = ''utf-8'' \<and> \<not> list_ex (\<lambda>b. b \<ge> 0x80) raw
                                   then Inr (map (\<lambda>b. char_of (unat b)) raw)
                                   else Inl ''cannot decode''),
      pdf_pages = (\<lambda>raw. Inl ''not a PDF''),
      excel_to_csv = (\<lambda>raw. Inl ''not a workbook''),
      pptx_shapes = (\<lambda>raw. Inl ''not a presentation'')\<rparr>"


definition file_report :: entry where
  "file_report = \<lparr>entry_id = ''idR'', entry_name = ''report.docx'', entry_mimeType = mime_docx\<rparr>"

definition sample_service :: service where
  \<comment> \<open>a remote service that knows the file report.docx in the folder idA\<close>
  "sample_service =
     \<lparr>files_create =
        (\<lambda>b m. Inr \<lparr>entry_id = ''idNew'', entry_name = body_name b,
                     entry_mimeType = (case m of Some (t, _) \<Rightarrow> t | None \<Rightarrow> mime_folder)\<rparr>),
      files_list =
        (\<lambda>q page_size.
           if q = name_query ''idA'' ''report.docx'' then Inr [file_report] else Inr []),
      files_get = (\<lambda>i. if i = ''idR'' then Inr file_report else Inl ''File not found''),
      files_get_media = (\<lambda>i. (Inr [0x50, 0x4B], [Inr [0x03, 0x04]])),
      files_update =
        (\<lambda>i b m. Inr \<lparr>entry_id = i, entry_name = body_name b, entry_mimeType = fst m\<rparr>)\<rparr>"

definition failing_service :: service where
  \<comment> \<open>a remote service that rejects every request\<close>
  "failing_service =
     \<lparr>files_create = (\<lambda>b m. Inl ''HttpError 500''),
      files_list = (\<lambda>q page_size. Inl ''HttpError 500''),
      files_get = (\<lambda>i. Inl ''HttpError 500''),
      files_get_media = (\<lambda>i. (Inl ''HttpError 500'', [])),
      files_update = (\<lambda>i b m. Inl ''HttpError 500'')\<rparr>"

definition drive_service :: "node list \<Rightarrow> service" where
  \<comment> \<open>a read-only remote service that holds the given entries and answers the two
      requests above with the entries they describe\<close>
  "drive_service D =
     \<lparr>files_create = (\<lambda>b m. Inl ''read-only drive''),
      files_list =
        (\<lambda>q page_size.
           Inr (map entry_of
                  (filter (\<lambda>n. \<not> node_trashed n
                              \<and> (q = spec_children_listing (node_parent n)
                                  \<or> (is_folder n
                                      \<and> q = spec_folder_lookup (node_parent n) (node_name n))))
                     D))),
      files_get = (\<lambda>i. Inl ''read-only drive''),
      files_get_media = (\<lambda>i. (Inl ''read-only drive'', [])),
      files_update = (\<lambda>i b m. Inl ''read-only drive'')\<rparr>"

definition quote_free :: "string \<Rightarrow> bool" where
  "quote_free s = (CHR 0x27 \<notin> set s)"

definition sample_drive :: "node list" where
  \<comment> \<open>in the root: a file A, a trashed folder A, and two folders A; B lies in the second
      folder A, notes and report.docx in the first\<close>
  "sample_drive =
     [\<lparr>node_id = ''idF'', node_name = ''A'', node_parent = ''root'',
       node_mimeType = ''text/plain'', node_trashed = False\<rparr>,
      \<lparr>node_id = ''idT'', node_name = ''A'', node_parent = ''root'',
       node_mimeType = ''application/vnd.google-apps.folder'', node_trashed = True\<rparr>,
      \<lparr>node_id = ''idA'', node_name = ''A'', node_parent = ''root'',
       node_mimeType = ''application/vnd.google-apps.folder'', node_trashed = False\<rparr>,
      \<lparr>node_id = ''idA2'', node_name = ''A'', node_parent = ''root'',
       node_mimeType = ''application/vnd.google-apps.folder'', node_trashed = False\<rparr>,
      \<lparr>node_id = ''idB'', node_name = ''B'', node_parent = ''idA2'',
       node_mimeType = ''application/vnd.google-apps.folder'', node_trashed = False\<rparr>,
      \<lparr>node_id = ''idC'', node_name = ''notes'', node_parent = ''idA'',
       node_mimeType = ''application/vnd.google-apps.folder'', node_trashed = False\<rparr>,
      \<lparr>node_id = ''idR'', node_name = ''report.docx'', node_parent = ''idA'',
       node_mimeType = ''application/vnd.openxmlformats-officedocument.wordprocessingml.document'',
       node_trashed = False\<rparr>]"

definition sample_client :: client where
  "sample_client = init_client ''alice'' ''tokens''"

definition sample_session :: client where
  "sample_session = sample_client\<lparr>service := Some sample_service\<rparr>"

definition drive_session :: client where
  "drive_session = sample_client\<lparr>service := Some (drive_service sample_drive)\<rparr>"

definition failing_session :: client where
  "failing_session = sample_client\<lparr>service := Some failing_service\<rparr>"

definition sample_env :: auth_env where
  "sample_env =
     \<lparr>now = 50, refresh = (\<lambda>c. Inl ''invalid_grant''), build = (\<lambda>c. Inr sample_service)\<rparr>"

definition offline_env :: auth_env where
  \<comment> \<open>as \<open>sample_env\<close>, but the session handle cannot be built\<close>
  "offline_env =
     \<lparr>now = 50, refresh = (\<lambda>c. Inl ''invalid_grant''),
      build = (\<lambda>c. Inl ''discovery failed'')\<rparr>"

definition sample_world :: "credentials \<Rightarrow> world" where
  "sample_world c =
     \<lparr>token_files = [token_file sample_client \<mapsto> Pickled (Some c)], refresh_calls = []\<rparr>"

definition fresh_creds :: credentials where
  "fresh_creds = \<lparr>token = Some ''ya29.a'', refresh_token = None, expiry = Some 100\<rparr>"

definition stale_creds :: credentials where
  "stale_creds = \<lparr>token = Some ''ya29.b'', refresh_token = None, expiry = Some 10\<rparr>"

definition revoked_creds :: credentials where
  "revoked_creds = \<lparr>token = Some ''ya29.c'', refresh_token = Some ''1//r'', expiry = Some 10\<rparr>"

section \<open>Facts about the string helpers\<close>

text \<open>
  \<open>split_str\<close> is the inverse of joining with the separator, and no segment contains the
  separator: the two facts that determine \<open>str.split\<close>.
\<close>

lemma split_aux_nonempty: "split_aux sep s cur \<noteq> []"
  by (induction s arbitrary: cur) auto

lemma join_Cons: "ys \<noteq> [] \<Longrightarrow> join sep (x # ys) = x @ sep @ join sep ys"
  by (cases ys) auto

lemma join_split_aux: "join [sep] (split_aux sep s cur) = cur @ s"
  by (induction s arbitrary: cur) (auto simp: join_Cons split_aux_nonempty)

lemma join_split: "join [sep] (split_str sep s) = s"
  by (simp add: split_str_def join_split_aux)

lemma split_aux_free:
  "sep \<notin> set cur \<Longrightarrow> \<forall>seg \<in> set (split_aux sep s cur). sep \<notin> set seg"
proof (induction s arbitrary: cur)
  case Nil
  then show ?case by simp
next
  case (Cons a s)
  show ?case
    using Cons.IH [of "[]"] Cons.IH [of "cur @ [a]"] Cons.prems by auto
qed

lemma split_free: "seg \<in> set (split_str sep s) \<Longrightarrow> sep \<notin> set seg"
  unfolding split_str_def using split_aux_free [of sep "[]" s] by simp

lemma takeWhile_stop: "c \<notin> set xs \<Longrightarrow> takeWhile (\<lambda>x. x \<noteq> c) (xs @ c # ys) = xs"
  by (induction xs) auto

lemma rfind_last:
  assumes "c \<notin> set s"
  shows "rfind (r @ c # s) c = int (length r)"
proof -
  have "takeWhile (\<lambda>x. x \<noteq> c) (rev s @ c # rev r) = rev s"
    using assms by (simp add: takeWhile_stop)
  then show ?thesis
    by (simp add: rfind_def)
qed

lemma endswith_split: "endswith n suf \<Longrightarrow> n = take (length n - length suf) n @ suf"
  by (metis append_take_drop_id endswith_def)

section \<open>Computations\<close>

lemma fst_bind:
  "fst (bind m f) = (case fst m of Inl e \<Rightarrow> Inl e | Inr x \<Rightarrow> fst (f x))"
  by (cases m; cases "fst m") (auto simp: bind_def split: prod.splits)

lemma fst_catch:
  "fst (catch m h) = (case fst m of Inl e \<Rightarrow> Inr (h e) | Inr x \<Rightarrow> Inr x)"
  by (cases m; cases "fst m") (auto simp: catch_def)

lemma catch_returns: "\<exists>x. fst (catch m h) = Inr x"
  by (simp add: fst_catch split: sum.splits)

lemma catch_catch: "catch (catch m h) h' = catch m h"
  by (cases m; cases "fst m") (auto simp: catch_def)

lemma catch_ret: "catch (ret x) h = ret x"
  by (simp add: catch_def ret_def)

lemma sample_session_service: "service sample_session = Some sample_service"
  by (simp add: sample_session_def)

lemma sample_client_service: "service sample_client = None"
  by (simp add: sample_client_def init_client_def)

lemma drive_session_service: "service drive_session = Some (drive_service sample_drive)"
  by (simp add: drive_session_def)

lemma failing_session_service: "service failing_session = Some failing_service"
  by (simp add: failing_session_def)

section \<open>Encoding: base64 passthrough and synthesis\<close>

lemma mime_distinct:
  "mime_xlsx \<noteq> mime_pdf" "mime_pptx \<noteq> mime_pdf" "mime_docx \<noteq> mime_pdf"
  "mime_pptx \<noteq> mime_xlsx" "mime_docx \<noteq> mime_xlsx" "mime_docx \<noteq> mime_pptx"
  by (simp_all add: mime_pdf_def mime_xlsx_def mime_pptx_def mime_docx_def)

lemma mime_of_ext:
  "lower (snd (splitext name)) = ''.xlsx'' \<Longrightarrow> get_mime_type name = mime_xlsx"
  "lower (snd (splitext name)) = ''.pptx'' \<Longrightarrow> get_mime_type name = mime_pptx"
  "lower (snd (splitext name)) = ''.docx'' \<Longrightarrow> get_mime_type name = mime_docx"
  "lower (snd (splitext name)) = ''.pdf'' \<Longrightarrow> get_mime_type name = mime_pdf"
  by (simp_all add: get_mime_type_def EXTENSION_TO_MIME_def
        mime_pdf_def mime_xlsx_def mime_pptx_def mime_docx_def)

lemma encode_xlsx:
  "encode_content L mime_xlsx content =
     (case b64decode content of
        Some p \<Rightarrow> Inr p
      | None \<Rightarrow> make_xlsx L (map (split_str (CHR '','')) (splitlines content)))"
  by (simp add: encode_content_def mime_distinct)

lemma encode_pptx:
  "encode_content L mime_pptx content =
     (case b64decode content of
        Some p \<Rightarrow> Inr p
      | None \<Rightarrow> make_pptx L (map (\<lambda>line. (''Slide'', line)) (splitlines content)))"
  by (simp add: encode_content_def mime_distinct)

lemma encode_docx:
  "encode_content L mime_docx content =
     (case b64decode content of
        Some p \<Rightarrow> Inr p
      | None \<Rightarrow> make_docx L (splitlines content))"
  by (simp add: encode_content_def mime_distinct)

lemma encode_pdf: "encode_content L mime_pdf content = make_pdf L content"
  by (simp add: encode_content_def make_pdf_bytes_def)

lemma encode_text_kinds:
  assumes "lower (snd (splitext name)) \<in> {''.txt'', ''.csv'', ''.json'', ''.py'', ''.ipynb''}"
  shows "encode_content L (get_mime_type name) content = Inr (utf8_encode content)"
  using assms
  by (auto simp: get_mime_type_def EXTENSION_TO_MIME_def encode_content_def mime_pdf_def
        mime_xlsx_def mime_pptx_def mime_docx_def startswith_def)

lemma b64_QUJD: "b64decode ''QUJD'' = Some [0x41, 0x42, 0x43]"
  by code_simp

lemma b64_csv: "b64decode ''a,b\<newline>1,2'' = Some [0x69, 0xBD, 0x76]"
  by code_simp

lemma b64_rows: "b64decode ''x,y\<newline>1,2,3'' = None"
  by code_simp

lemma b64_hello: "b64decode ''hello'' = None"
  by code_simp

lemma mime_report_pdf: "get_mime_type ''report.pdf'' = mime_pdf"
  by code_simp

lemma mime_notes_txt: "get_mime_type ''notes.txt'' = ''text/plain''"
  by code_simp

lemma mime_data_xlsx: "get_mime_type ''data.xlsx'' = mime_xlsx"
  by code_simp

lemma ext_deck: "lower (snd (splitext ''deck.pptx'')) = ''.pptx''"
  by code_simp

lemma ext_data: "lower (snd (splitext ''data.xlsx'')) = ''.xlsx''"
  by code_simp

lemma ext_notes: "lower (snd (splitext ''notes.txt'')) = ''.txt''"
  by code_simp

lemma rows_of:
  "map (split_str (CHR '','')) (splitlines ''x,y\<newline>1,2,3'')
     = [[''x'', ''y''], [''1'', ''2'', ''3'']]"
  by code_simp

lemma csv_rows:
  "map (split_str (CHR '','')) (splitlines ''a,b\<newline>1,2'') = [[''a'', ''b''], [''1'', ''2'']]"
  by code_simp

lemma utf8_hello: "utf8_encode ''hello'' = [0x68, 0x65, 0x6C, 0x6C, 0x6F]"
  by code_simp

text \<open>
  C1, as stated, fails: the claim has every kind, PDF included, try base64 first. For the
  content \<open>QUJD\<close>, which is valid base64 for the bytes \<open>ABC\<close>, the PDF branch hands the
  text to the PDF generator and uploads what it returns, and the plain-text branch uploads
  the four characters themselves.
\<close>

theorem encode_base64_first_counterexample:
  "b64decode ''QUJD'' = Some [0x41, 0x42, 0x43]
   \<and> encode_content sample_libs (get_mime_type ''report.pdf'') ''QUJD''
       = make_pdf sample_libs ''QUJD''
   \<and> encode_content sample_libs (get_mime_type ''report.pdf'') ''QUJD''
       \<noteq> Inr [0x41, 0x42, 0x43]
   \<and> encode_content sample_libs (get_mime_type ''notes.txt'') ''QUJD''
       = Inr [0x51, 0x55, 0x4A, 0x44]"
  by (simp add: b64_QUJD mime_report_pdf mime_notes_txt encode_pdf sample_libs_def
        utf8_encode_def)
     (simp add: encode_content_def mime_pdf_def mime_xlsx_def mime_pptx_def mime_docx_def
        startswith_def utf8_encode_def)

text \<open>
  C1, amended: for the spreadsheet, presentation and word-processing kinds the encoder
  first tries to base64-decode the content and uploads the decoded bytes as they are;
  only when the decoding fails does it synthesize a document of the kind from the lines
  of the content. The plain-text and JSON kinds are uploaded as the UTF-8 bytes of the
  content, without a base64 attempt.
\<close>

theorem encode_two_tier:
  "(lower (snd (splitext name)) \<in> {''.xlsx'', ''.pptx'', ''.docx''} \<longrightarrow>
      encode_content L (get_mime_type name) content =
        (case b64decode content of
           Some payload \<Rightarrow> Inr payload
         | None \<Rightarrow> spec_synthesize L (lower (snd (splitext name))) (splitlines content)))
   \<and> (lower (snd (splitext name)) \<in> {''.txt'', ''.csv'', ''.json'', ''.py'', ''.ipynb''} \<longrightarrow>
      encode_content L (get_mime_type name) content = Inr (utf8_encode content))"
proof (intro conjI impI)
  assume "lower (snd (splitext name)) \<in> {''.xlsx'', ''.pptx'', ''.docx''}"
  then show "encode_content L (get_mime_type name) content =
        (case b64decode content of
           Some payload \<Rightarrow> Inr payload
         | None \<Rightarrow> spec_synthesize L (lower (snd (splitext name))) (splitlines content))"
    by (auto simp: mime_of_ext encode_xlsx encode_pptx encode_docx spec_synthesize_def
             split: option.splits)
next
  assume "lower (snd (splitext name)) \<in> {''.txt'', ''.csv'', ''.json'', ''.py'', ''.ipynb''}"
  then show "encode_content L (get_mime_type name) content = Inr (utf8_encode content)"
    by (rule encode_text_kinds)
qed

theorem encode_two_tier_witness:
  "lower (snd (splitext ''deck.pptx'')) \<in> {''.xlsx'', ''.pptx'', ''.docx''}
   \<and> encode_content sample_libs (get_mime_type ''deck.pptx'') ''QUJD'' = Inr [0x41, 0x42, 0x43]
   \<and> lower (snd (splitext ''data.xlsx'')) \<in> {''.xlsx'', ''.pptx'', ''.docx''}
   \<and> encode_content sample_libs (get_mime_type ''data.xlsx'') ''x,y\<newline>1,2,3''
       = make_xlsx sample_libs [[''x'', ''y''], [''1'', ''2'', ''3'']]
   \<and> lower (snd (splitext ''notes.txt'')) \<in> {''.txt'', ''.csv'', ''.json'', ''.py'', ''.ipynb''}
   \<and> encode_content sample_libs (get_mime_type ''notes.txt'') ''hello''
       = Inr [0x68, 0x65, 0x6C, 0x6C, 0x6F]"
  using encode_two_tier [of "''deck.pptx''" sample_libs "''QUJD''"]
        encode_two_tier [of "''data.xlsx''" sample_libs "''x,y\<newline>1,2,3''"]
        encode_two_tier [of "''notes.txt''" sample_libs "''hello''"]
  by (simp add: ext_deck ext_data ext_notes b64_QUJD b64_rows spec_synthesize_def rows_of
        utf8_hello)

text \<open>
  C2: the code at the input of the scenario. \<open>b64decode\<close> drops the comma and the newline
  of the content, decodes the remaining \<open>ab12\<close> and succeeds, so the three decoded bytes
  are the payload of the upload request and no spreadsheet is synthesized from the rows
  \<open>[a, b]\<close> and \<open>[1, 2]\<close>.
\<close>

theorem write_xlsx_csv_passthrough:
  "b64decode ''a,b\<newline>1,2'' = Some [0x69, 0xBD, 0x76]
   \<and> encode_content L (get_mime_type ''data.xlsx'') ''a,b\<newline>1,2'' = Inr [0x69, 0xBD, 0x76]
   \<and> snd (write_file L sample_session ''data.xlsx'' ''a,b\<newline>1,2'' None None)
       = [CreateReq \<lparr>body_name = ''data.xlsx'', body_mimeType = None, body_parents = None\<rparr>
            (Some (mime_xlsx, [0x69, 0xBD, 0x76]))]"
  by (simp add: write_file_def sample_session_service mime_data_xlsx encode_xlsx b64_csv
        catch_def bind_def call_def lift_def ret_def truthy_def parents_of_def
        sample_service_def)

section \<open>Authentication\<close>

lemma sample_token_file: "token_file sample_client = ''tokens/alice_token.pickle''"
  by code_simp

text \<open>
  C3, as stated, fails: a credential without refresh token that is still valid
  authenticates.
\<close>

theorem authenticate_no_refresh_token_counterexample:
  "refresh_token fresh_creds = None
   \<and> fst (authenticate sample_env sample_client (sample_world fresh_creds)) = Inr True"
  by (simp add: authenticate_def authenticate_body_def refresh_step_def valid_def expired_def
        fresh_creds_def sample_env_def sample_world_def)

text \<open>
  C3, amended: when the stored credential is not valid and has no refresh token, or is
  expired and its refresh is rejected by the authorization service, \<open>authenticate\<close> returns
  false without raising, the client stays without a session, and no token file changes.
\<close>

theorem authenticate_unrefreshable:
  assumes "token_files W (token_file self) = Some (Pickled (Some c))"
      and "(\<not> truthy (refresh_token c) \<and> \<not> valid c (now E))
           \<or> (expired c (now E) \<and> truthy (refresh_token c) \<and> refresh E c = Inl e)"
  shows "fst (authenticate E self W) = Inr False
         \<and> fst (snd (authenticate E self W)) = self
         \<and> token_files (snd (snd (authenticate E self W))) = token_files W"
  using assms
  by (auto simp: authenticate_def authenticate_body_def refresh_step_def valid_def Let_def)

theorem authenticate_unrefreshable_witness:
  "fst (authenticate sample_env sample_client (sample_world stale_creds)) = Inr False
   \<and> token_files (snd (snd (authenticate sample_env sample_client (sample_world stale_creds))))
       = token_files (sample_world stale_creds)
   \<and> fst (authenticate sample_env sample_client (sample_world revoked_creds)) = Inr False
   \<and> token_files (snd (snd (authenticate sample_env sample_client (sample_world revoked_creds))))
       = token_files (sample_world revoked_creds)"
  using authenticate_unrefreshable [of "sample_world stale_creds" sample_client stale_creds sample_env]
        authenticate_unrefreshable [of "sample_world revoked_creds" sample_client revoked_creds
          sample_env "''invalid_grant''"]
  by (simp add: sample_world_def stale_creds_def revoked_creds_def sample_env_def truthy_def
        valid_def expired_def)

text \<open>
  C4, as stated, fails: the credential is valid and unexpired, but the construction of the
  session handle raises inside the \<open>try\<close> block, and \<open>authenticate\<close> returns false.
\<close>

theorem authenticate_build_raises_counterexample:
  "token fresh_creds = Some ''ya29.a'' \<and> expiry fresh_creds = Some 100 \<and> now offline_env < 100
   \<and> authenticate offline_env sample_client (sample_world fresh_creds)
       = (Inr False, sample_client, sample_world fresh_creds)"
  by (simp add: authenticate_def authenticate_body_def refresh_step_def valid_def expired_def
        fresh_creds_def offline_env_def sample_world_def)

text \<open>
  C4, amended: for a stored credential with an access token and \<open>now < expiry\<close>,
  \<open>authenticate\<close> never sends a refresh and persists nothing (the world is unchanged); it
  returns true and binds the session handle when \<open>build\<close> hands one out, and returns false
  with the client unchanged when \<open>build\<close> raises.
\<close>

theorem authenticate_valid_skips_refresh:
  assumes "token_files W (token_file self) = Some (Pickled (Some c))"
      and "token c = Some a" and "expiry c = Some e" and "now E < e"
  shows "authenticate E self W =
           (case build E c of
              Inr svc \<Rightarrow> (Inr True, self\<lparr>service := Some svc\<rparr>, W)
            | Inl err \<Rightarrow> (Inr False, self, W))"
  using assms
  by (simp add: authenticate_def authenticate_body_def refresh_step_def valid_def expired_def
        split: sum.splits)

theorem authenticate_valid_skips_refresh_witness:
  "authenticate sample_env sample_client (sample_world fresh_creds)
     = (Inr True, sample_client\<lparr>service := Some sample_service\<rparr>, sample_world fresh_creds)
   \<and> authenticate offline_env sample_client (sample_world fresh_creds)
     = (Inr False, sample_client, sample_world fresh_creds)
   \<and> refresh_calls (sample_world fresh_creds) = []"
  using authenticate_valid_skips_refresh [of "sample_world fresh_creds" sample_client fresh_creds
          "''ya29.a''" 100 sample_env]
        authenticate_valid_skips_refresh [of "sample_world fresh_creds" sample_client fresh_creds
          "''ya29.a''" 100 offline_env]
  by (simp add: sample_world_def fresh_creds_def sample_env_def offline_env_def)

section \<open>Navigation\<close>

lemma folder_query_text: "folder_query cur part = spec_folder_lookup cur part"
  by (simp add: folder_query_def spec_folder_lookup_def mime_folder_def)

lemma spec_step_simps:
  "spec_step svc No_match seg = No_match"
  "spec_step svc (Lookup_failed e) seg = Lookup_failed e"
  "spec_step svc (Resolved cur) seg =
     (case files_list svc (spec_folder_lookup cur seg) None of
        Inl e \<Rightarrow> Lookup_failed e
      | Inr [] \<Rightarrow> No_match
      | Inr (first # _) \<Rightarrow> Resolved (entry_id first))"
  by (simp_all add: spec_step_def)

lemma spec_step_stuck:
  "foldl (spec_step svc) No_match segs = No_match"
  "foldl (spec_step svc) (Lookup_failed e) segs = Lookup_failed e"
  by (induction segs) (simp_all add: spec_step_simps)

lemma navigate_loop_walk:
  "fst (navigate_loop svc path cur parts) =
     (case foldl (spec_step svc) (Resolved cur) parts of
        Resolved folder \<Rightarrow> Inr (Inr folder)
      | No_match \<Rightarrow> Inr (Inl (path_not_found path))
      | Lookup_failed e \<Rightarrow> Inl e)"
proof (induction parts arbitrary: cur)
  case Nil
  show ?case by (simp add: ret_def)
next
  case (Cons part parts)
  show ?case
  proof (cases "files_list svc (spec_folder_lookup cur part) None")
    case (Inl e)
    then show ?thesis
      by (simp add: fst_bind call_def spec_step_simps spec_step_stuck folder_query_text)
  next
    case (Inr items)
    then show ?thesis
      by (cases items)
         (simp_all add: fst_bind call_def ret_def spec_step_simps spec_step_stuck Cons.IH
            folder_query_text)
  qed
qed

lemma navigate_path_outcome:
  assumes "service self = Some svc" and "path \<noteq> []" and "path \<noteq> ''/''"
  shows "fst (navigate_path self path) =
           (case spec_walk svc (spec_segments path) of
              Lookup_failed e \<Rightarrow> Inr (Error (''Failed to navigate path: '' @ e))
            | No_match \<Rightarrow> Inr (Error (''Path '' @ [CHR 0x27] @ path @ [CHR 0x27] @ '' not found''))
            | Resolved folder \<Rightarrow> fst (list_directory self (Some folder) 100))"
proof -
  have ld: "\<exists>x. fst (list_directory self f n) = Inr x" for f n
    unfolding list_directory_def by (rule catch_returns)
  show ?thesis
    using assms ld
    apply (simp add: navigate_path_def fst_catch fst_bind navigate_loop_walk spec_walk_def
        spec_segments_def Let_def ret_def path_not_found_def split: resolution.splits sum.splits)
    by (metis sum.simps(5) sum.simps(6) Inl_Inr_False)
qed

text \<open>
  The request text determines the folder and the name it asks for, as long as folder
  identifiers contain no quote character; so a remote service that answers a request with
  the entries the request describes returns exactly the child folders of that name.
\<close>

lemma delimited_inj:
  assumes "c \<notin> set p" and "c \<notin> set p'" and "p @ c # r = p' @ c # r'"
  shows "p = p' \<and> r = r'"
proof -
  have "takeWhile (\<lambda>x. x \<noteq> c) (p @ c # r) = p"
    using assms(1) by (rule takeWhile_stop)
  moreover have "takeWhile (\<lambda>x. x \<noteq> c) (p' @ c # r') = p'"
    using assms(2) by (rule takeWhile_stop)
  ultimately have "p = p'"
    using assms(3) by metis
  with assms(3) show ?thesis by simp
qed

lemma folder_lookup_inj:
  assumes "quote_free p" and "quote_free p'"
  shows "spec_folder_lookup p x = spec_folder_lookup p' x' \<longleftrightarrow> p = p' \<and> x = x'"
proof
  assume eq: "spec_folder_lookup p x = spec_folder_lookup p' x'"
  then have "p @ CHR 0x27 # ('' in parents and name='' @ [CHR 0x27] @ x @ [CHR 0x27]
       @ '' and mimeType='' @ [CHR 0x27] @ ''application/vnd.google-apps.folder'' @ [CHR 0x27]
       @ '' and trashed=false'')
     = p' @ CHR 0x27 # ('' in parents and name='' @ [CHR 0x27] @ x' @ [CHR 0x27]
       @ '' and mimeType='' @ [CHR 0x27] @ ''application/vnd.google-apps.folder'' @ [CHR 0x27]
       @ '' and trashed=false'')"
    by (simp add: spec_folder_lookup_def)
  from delimited_inj [OF _ _ this] assms
  show "p = p' \<and> x = x'" by (simp add: quote_free_def)
next
  assume "p = p' \<and> x = x'"
  then show "spec_folder_lookup p x = spec_folder_lookup p' x'" by simp
qed

lemma folder_lookup_not_listing:
  assumes "quote_free p" and "quote_free p'"
  shows "spec_folder_lookup p x \<noteq> spec_children_listing p'"
proof
  assume "spec_folder_lookup p x = spec_children_listing p'"
  then have "p @ CHR 0x27 # ('' in parents and name='' @ [CHR 0x27] @ x @ [CHR 0x27]
       @ '' and mimeType='' @ [CHR 0x27] @ ''application/vnd.google-apps.folder'' @ [CHR 0x27]
       @ '' and trashed=false'')
     = p' @ CHR 0x27 # '' in parents and trashed=false''"
    by (simp add: spec_folder_lookup_def spec_children_listing_def)
  from delimited_inj [OF _ _ this] assms
  show False by (simp add: quote_free_def)
qed

lemma drive_service_lookup:
  assumes "list_all (\<lambda>n. quote_free (node_parent n)) D" and "quote_free folder"
  shows "files_list (drive_service D) (spec_folder_lookup folder seg) None
           = Inr (child_folders D folder seg)"
proof -
  have "(\<not> node_trashed n
         \<and> (spec_folder_lookup folder seg = spec_children_listing (node_parent n)
            \<or> (is_folder n
                \<and> spec_folder_lookup folder seg = spec_folder_lookup (node_parent n) (node_name n))))
        = (node_parent n = folder \<and> node_name n = seg \<and> is_folder n \<and> \<not> node_trashed n)"
    if "n \<in> set D" for n
  proof -
    have "quote_free (node_parent n)"
      using assms(1) that by (simp add: list_all_iff)
    then show ?thesis
      using assms(2) by (auto simp: folder_lookup_inj folder_lookup_not_listing)
  qed
  then show ?thesis
    by (simp add: drive_service_def child_folders_def cong: filter_cong)
qed


lemma child_folders_ids:
  "e \<in> set (child_folders D folder seg) \<Longrightarrow> entry_id e \<in> set (map node_id D)"
  by (auto simp: child_folders_def entry_of_def)

lemma walk_on_drive:
  assumes "\<forall>cur seg. cur \<in> set (''root'' # map node_id D) \<longrightarrow>
             files_list svc (spec_folder_lookup cur seg) None = Inr (child_folders D cur seg)"
      and "cur \<in> set (''root'' # map node_id D)"
  shows "foldl (spec_step svc) (Resolved cur) segs =
           (case walk_drive D cur segs of None \<Rightarrow> No_match | Some folder \<Rightarrow> Resolved folder)"
  using assms(2)
proof (induction segs arbitrary: cur)
  case Nil
  show ?case by simp
next
  case (Cons seg segs)
  have look: "files_list svc (spec_folder_lookup cur seg) None = Inr (child_folders D cur seg)"
    using assms(1) Cons.prems by blast
  show ?case
  proof (cases "child_folders D cur seg")
    case Nil
    then show ?thesis
      by (simp add: spec_step_simps look spec_step_stuck)
  next
    case (Cons first rest)
    then have "entry_id first \<in> set (''root'' # map node_id D)"
      using child_folders_ids [of first D cur seg] by simp
    from Cons.IH [OF this] Cons show ?thesis
      by (simp add: spec_step_simps look)
  qed
qed

text \<open>
  C5: for a path other than \<open>""\<close> and \<open>"/"\<close>, with a session bound, \<open>navigate_path\<close> walks the
  non-empty segments of the path from the root. Each segment is looked up with the request
  for the non-trashed children of the current folder that carry exactly this name and are
  folders; no match ends in the error that names the whole path, otherwise the first match
  becomes the current folder; after the last segment the result is the listing of the
  folder reached. A lookup that the remote service rejects ends in the error envelope of
  \<open>navigate_path\<close>. When the remote service answers these lookups from a collection of
  entries, the walk is the walk over those entries.
\<close>

theorem navigate_path_walk:
  assumes "service self = Some svc" and "path \<noteq> []" and "path \<noteq> ''/''"
  shows "fst (navigate_path self path) =
           (case spec_walk svc (spec_segments path) of
              Lookup_failed e \<Rightarrow> Inr (Error (''Failed to navigate path: '' @ e))
            | No_match \<Rightarrow> Inr (Error (''Path '' @ [CHR 0x27] @ path @ [CHR 0x27] @ '' not found''))
            | Resolved folder \<Rightarrow> fst (list_directory self (Some folder) 100))
         \<and> ((\<forall>cur seg. cur \<in> set (''root'' # map node_id D) \<longrightarrow>
                files_list svc (spec_folder_lookup cur seg) None = Inr (child_folders D cur seg)) \<longrightarrow>
             fst (navigate_path self path) =
               (case walk_drive D ''root'' (spec_segments path) of
                  None \<Rightarrow> Inr (Error (''Path '' @ [CHR 0x27] @ path @ [CHR 0x27] @ '' not found''))
                | Some folder \<Rightarrow> fst (list_directory self (Some folder) 100)))"
proof -
  note general = navigate_path_outcome [OF assms]
  have drive: "fst (navigate_path self path) =
               (case walk_drive D ''root'' (spec_segments path) of
                  None \<Rightarrow> Inr (Error (''Path '' @ [CHR 0x27] @ path @ [CHR 0x27] @ '' not found''))
                | Some folder \<Rightarrow> fst (list_directory self (Some folder) 100))"
    if contract: "\<forall>cur seg. cur \<in> set (''root'' # map node_id D) \<longrightarrow>
                files_list svc (spec_folder_lookup cur seg) None = Inr (child_folders D cur seg)"
  proof -
    have "spec_walk svc (spec_segments path) =
            (case walk_drive D ''root'' (spec_segments path) of
               None \<Rightarrow> No_match | Some folder \<Rightarrow> Resolved folder)"
      unfolding spec_walk_def by (rule walk_on_drive [OF contract]) simp
    then show ?thesis
      by (simp add: general split: option.splits)
  qed
  from general drive show ?thesis by blast
qed

lemma sample_drive_parents: "list_all (\<lambda>n. quote_free (node_parent n)) sample_drive"
  by code_simp

lemma sample_drive_ids: "list_all quote_free (''root'' # map node_id sample_drive)"
  by code_simp

lemma sample_drive_contract:
  "\<forall>cur seg. cur \<in> set (''root'' # map node_id sample_drive) \<longrightarrow>
     files_list (drive_service sample_drive) (spec_folder_lookup cur seg) None
       = Inr (child_folders sample_drive cur seg)"
proof (intro allI impI)
  fix cur seg
  assume "cur \<in> set (''root'' # map node_id sample_drive)"
  then have "quote_free cur"
    using sample_drive_ids unfolding list_all_iff by blast
  then show "files_list (drive_service sample_drive) (spec_folder_lookup cur seg) None
       = Inr (child_folders sample_drive cur seg)"
    by (rule drive_service_lookup [OF sample_drive_parents])
qed

lemma walk_AB: "walk_drive sample_drive ''root'' (spec_segments ''A/B'') = None"
  by code_simp

lemma walk_A: "walk_drive sample_drive ''root'' (spec_segments ''/A//notes/'') = Some ''idC''"
  by code_simp

lemma walk_A1: "walk_drive sample_drive ''root'' (spec_segments ''A'') = Some ''idA''"
  by code_simp

lemma list_idA:
  "fst (list_directory drive_session (Some ''idA'') 100)
     = Inr (Success (Entries
         [\<lparr>entry_id = ''idC'', entry_name = ''notes'',
           entry_mimeType = ''application/vnd.google-apps.folder''\<rparr>,
          \<lparr>entry_id = ''idR'', entry_name = ''report.docx'',
           entry_mimeType =
             ''application/vnd.openxmlformats-officedocument.wordprocessingml.document''\<rparr>]))"
  by code_simp

lemma list_idC: "fst (list_directory drive_session (Some ''idC'') 100) = Inr (Success (Entries []))"
  by code_simp

lemma walk_failing: "spec_walk failing_service (spec_segments ''A/B'') = Lookup_failed ''HttpError 500''"
  by code_simp

theorem navigate_path_walk_witness:
  "service drive_session = Some (drive_service sample_drive)
   \<and> fst (navigate_path drive_session ''A/B'')
       = Inr (Error (''Path '' @ [CHR 0x27] @ ''A/B'' @ [CHR 0x27] @ '' not found''))
   \<and> fst (navigate_path drive_session ''A'')
       = Inr (Success (Entries
           [\<lparr>entry_id = ''idC'', entry_name = ''notes'',
             entry_mimeType = ''application/vnd.google-apps.folder''\<rparr>,
            \<lparr>entry_id = ''idR'', entry_name = ''report.docx'',
             entry_mimeType =
               ''application/vnd.openxmlformats-officedocument.wordprocessingml.document''\<rparr>]))
   \<and> fst (navigate_path drive_session ''/A//notes/'') = Inr (Success (Entries []))
   \<and> fst (navigate_path failing_session ''A/B'')
       = Inr (Error ''Failed to navigate path: HttpError 500'')"
proof -
  note on_drive = navigate_path_walk [OF drive_session_service, where D = sample_drive,
      THEN conjunct2, THEN mp, OF _ _ sample_drive_contract]
  have "fst (navigate_path drive_session ''A/B'')
       = Inr (Error (''Path '' @ [CHR 0x27] @ ''A/B'' @ [CHR 0x27] @ '' not found''))"
    using on_drive [of "''A/B''"] by (simp add: walk_AB)
  moreover have "fst (navigate_path drive_session ''A'') = fst (list_directory drive_session (Some ''idA'') 100)"
    using on_drive [of "''A''"] by (simp add: walk_A1)
  moreover have "fst (navigate_path drive_session ''/A//notes/'') = Inr (Success (Entries []))"
    using on_drive [of "''/A//notes/''"] by (simp add: walk_A list_idC)
  moreover have "fst (navigate_path failing_session ''A/B'')
       = Inr (Error ''Failed to navigate path: HttpError 500'')"
    using navigate_path_walk [OF failing_session_service, of "''A/B''" sample_drive]
    by (simp add: walk_failing)
  ultimately show ?thesis
    by (simp add: list_idA drive_session_service)
qed

text \<open>
  C6: \<open>navigate_path("/")\<close> and \<open>navigate_path("")\<close> give the result of
  \<open>list_directory("root")\<close> and send the same requests, with or without a session.
\<close>

theorem navigate_root_is_list_root:
  "navigate_path self ''/'' = list_directory self (Some ''root'') 100
   \<and> navigate_path self [] = list_directory self (Some ''root'') 100"
  by (cases "service self")
     (simp_all add: navigate_path_def catch_ret list_directory_def catch_catch)

section \<open>Envelopes\<close>
















text \<open>
  C8: without a session every operation returns the error envelope with the message
  \<open>Not authenticated\<close> and sends no request.
\<close>

theorem unauthenticated_operations:
  assumes "service self = None"
  shows "create_folder self name parent_id = (Inr (Error ''Not authenticated''), [])
   \<and> list_directory self folder_id max_results = (Inr (Error ''Not authenticated''), [])
   \<and> navigate_path self path = (Inr (Error ''Not authenticated''), [])
   \<and> read_file L self file_name_or_id encoding parent = (Inr (Error ''Not authenticated''), [])
   \<and> write_file L self name content file_id parent_id = (Inr (Error ''Not authenticated''), [])"
  using assms
  by (simp add: create_folder_def list_directory_def navigate_path_def read_file_def
        write_file_def catch_def not_authenticated_def ret_def)

theorem unauthenticated_operations_witness:
  "service sample_client = None
   \<and> create_folder sample_client ''docs'' None = (Inr (Error ''Not authenticated''), [])
   \<and> list_directory sample_client None 100 = (Inr (Error ''Not authenticated''), [])
   \<and> navigate_path sample_client ''A/B'' = (Inr (Error ''Not authenticated''), [])
   \<and> read_file sample_libs sample_client ''report.docx'' ''utf-8'' ''root''
       = (Inr (Error ''Not authenticated''), [])
   \<and> write_file sample_libs sample_client ''notes.txt'' ''hello'' None None
       = (Inr (Error ''Not authenticated''), [])"
  using unauthenticated_operations [where self = sample_client and name = "''docs''"
          and parent_id = None and folder_id = None and max_results = 100 and path = "''A/B''"
          and L = sample_libs and file_name_or_id = "''report.docx''" and encoding = "''utf-8''"
          and parent = "''root''"]
        unauthenticated_operations [where self = sample_client and name = "''notes.txt''"
          and content = "''hello''" and file_id = None and parent_id = None and L = sample_libs]
  by (simp add: sample_client_service)

section \<open>Decoding on the read path\<close>

lemma ext_of_docx_name:
  assumes "endswith n ''.docx''"
  shows "snd (splitext n) = ''.docx'' \<or> snd (splitext n) = []"
proof -
  obtain r where n: "n = r @ ''.docx''"
    using endswith_split [OF assms] by blast
  have "rfind n (CHR ''.'') = int (length r)"
    unfolding n using rfind_last [of "CHR ''.''" "''docx''" r] by simp
  then show ?thesis
    by (simp add: splitext_def Let_def n)
qed

lemma lower_docx: "lower ''.docx'' = ''.docx''"
  by code_simp

lemma decode_docx:
  assumes "endswith filename ''.docx''"
  shows "decode_content L filename encoding raw = Inr (b64encode raw)"
  using ext_of_docx_name [OF assms]
  by (auto simp: decode_content_def Let_def lower_docx) (simp_all add: lower_def)

text \<open>
  C9: when the name in the metadata of the resolved file ends in \<open>.docx\<close>, \<open>read_file\<close>
  returns the base64 text of the downloaded bytes: the dispatch has no branch for the
  extension. The write path does have one: it passes decoded base64 through and otherwise
  builds a document with one paragraph per line.
\<close>

theorem read_docx_is_base64:
  assumes "service self = Some svc"
      and "fst (resolve_id svc file_name_or_id parent_id) = Inr (Inr file_id)"
      and "files_get svc file_id = Inr metadata"
      and "endswith (entry_name metadata) ''.docx''"
      and "fst (download svc file_id) = Inr raw"
  shows "fst (read_file L self file_name_or_id encoding parent_id)
           = Inr (Success (FileContent metadata (b64encode raw)))
         \<and> encode_content L mime_docx content
             = (case b64decode content of
                  Some payload \<Rightarrow> Inr payload
                | None \<Rightarrow> make_docx L (splitlines content))"
  using assms
  by (simp add: read_file_def fst_catch fst_bind call_def lift_def ret_def decode_docx encode_docx)

lemma get_report: "files_get sample_service ''idR'' = Inr file_report"
  by (simp add: sample_service_def)

lemma report_name: "endswith (entry_name file_report) ''.docx''"
  by code_simp

lemma lines_hello: "splitlines ''hello'' = [''hello'']"
  by code_simp

lemma resolve_report:
  "fst (resolve_id sample_service ''report.docx'' ''idA'') = Inr (Inr ''idR'')"
  by code_simp

lemma download_report: "fst (download sample_service ''idR'') = Inr [0x50, 0x4B, 0x03, 0x04]"
  by code_simp

lemma b64_report: "b64encode [0x50, 0x4B, 0x03, 0x04] = ''UEsDBA==''"
  by code_simp

theorem read_docx_is_base64_witness:
  "service sample_session = Some sample_service
   \<and> endswith (entry_name file_report) ''.docx''
   \<and> fst (read_file sample_libs sample_session ''report.docx'' ''utf-8'' ''idA'')
       = Inr (Success (FileContent file_report ''UEsDBA==''))
   \<and> encode_content sample_libs mime_docx ''hello'' = make_docx sample_libs [''hello'']"
  using read_docx_is_base64 [of sample_session sample_service "''report.docx''" "''idA''"
          "''idR''" file_report "[0x50, 0x4B, 0x03, 0x04]" sample_libs "''utf-8''" "''hello''"]
  by (simp add: resolve_report download_report b64_report b64_hello sample_session_service
        get_report report_name lines_hello del: b64encode.simps)

text \<open>
  C10: the write path and the dispatch of the read path look the extension up after
  lowercasing it, so two names whose extensions differ only in letter case, such as
  \<open>NOTES.TXT\<close> and \<open>notes.txt\<close>, get the same MIME type, the same encoding of any content
  and the same decoding of any bytes.
\<close>

theorem extension_case_insensitive:
  assumes "same_extension_up_to_case n1 n2"
  shows "get_mime_type n1 = get_mime_type n2
         \<and> encode_content L (get_mime_type n1) content = encode_content L (get_mime_type n2) content
         \<and> decode_content L n1 encoding raw = decode_content L n2 encoding raw"
  using assms
  by (simp add: same_extension_up_to_case_def get_mime_type_def decode_content_def)

lemma notes_same: "same_extension_up_to_case ''NOTES.TXT'' ''notes.txt''"
  by code_simp

lemma mime_NOTES: "get_mime_type ''NOTES.TXT'' = ''text/plain''"
  by code_simp

lemma decode_NOTES: "decode_content sample_libs ''NOTES.TXT'' ''utf-8'' [0x68, 0x69] = Inr ''hi''"
  by code_simp

theorem extension_case_insensitive_witness:
  "same_extension_up_to_case ''NOTES.TXT'' ''notes.txt''
   \<and> get_mime_type ''NOTES.TXT'' = ''text/plain''
   \<and> get_mime_type ''notes.txt'' = ''text/plain''
   \<and> encode_content sample_libs (get_mime_type ''NOTES.TXT'') ''hello''
       = encode_content sample_libs (get_mime_type ''notes.txt'') ''hello''
   \<and> decode_content sample_libs ''notes.txt'' ''utf-8'' [0x68, 0x69] = Inr ''hi''"
  using extension_case_insensitive [of "''NOTES.TXT''" "''notes.txt''" sample_libs "''hello''"
          "''utf-8''" "[0x68, 0x69]"]
  by (simp add: notes_same mime_NOTES decode_NOTES)

end
